theory Spec2Isabelle
  imports Main
begin

section \<open>Data model of upsonicai.py\<close>

text \<open>
  The values that \<^verbatim>\<open>response.json()\<close> can produce: Python's None, bool, int, str,
  list and dict with string keys. A dict is kept as the list of its items and read
  with \<open>map_of\<close>, which is what \<^verbatim>\<open>dict.get\<close> does on a key. Fractional numbers play
  no part in the code and are left out.
\<close>

datatype jvalue =
    JNull
  | JBool bool
  | JNum int
  | JStr string
  | JArr "jvalue list"
  | JObj "(string \<times> jvalue) list"

text \<open>
  Every exception the modelled code can raise. \<open>HTTPException\<close> carries
  \<^verbatim>\<open>status_code\<close> and \<^verbatim>\<open>detail\<close>. \<open>AttributeError\<close> is a call of \<^verbatim>\<open>.get\<close> on a
  value that is no dict, \<open>TypeError\<close> a slice of a value that cannot be sliced,
  \<open>ValidationError\<close> the refusal of a field value by the \<^verbatim>\<open>str\<close>-typed response
  class, \<open>JSONDecodeError\<close> a body that is no JSON text, and \<open>ConnectionError\<close> a
  failure of the outbound call itself.
\<close>

datatype py_error =
    HTTPException int string
  | AttributeError
  | TypeError
  | ValidationError
  | JSONDecodeError
  | ConnectionError

text \<open>\<^verbatim>\<open>class SearchInput(BaseModel): keyword: str\<close>\<close>

record SearchInput =
  keyword :: string

text \<open>\<^verbatim>\<open>class SearchResult(ObjectResponse): title: str; link: str; snippet: str\<close>\<close>

record SearchResult =
  title :: string
  link :: string
  snippet :: string

text \<open>\<^verbatim>\<open>class SearchResponse(ObjectResponse): results: list[SearchResult]\<close>\<close>

datatype SearchResponse = SearchResponse (results: "SearchResult list")

text \<open>
  The dict \<^verbatim>\<open>{"keyword": ..., "results": ...}\<close> that \<^verbatim>\<open>perform_search\<close> returns.
\<close>

record reply =
  reply_keyword :: string
  reply_results :: "SearchResult list"

text \<open>
  The outbound request of \<^verbatim>\<open>requests.post(url, headers=headers, data=payload)\<close>. The
  field \<open>data\<close> holds the value handed to \<^verbatim>\<open>json.dumps\<close>; the serialisation itself is
  not modelled. Of the provider's answer the code reads \<^verbatim>\<open>status_code\<close>, \<^verbatim>\<open>text\<close> and
  \<^verbatim>\<open>json()\<close>; \<open>json = None\<close> stands for a body that does not parse.
\<close>

record http_request =
  url :: string
  headers :: "(string \<times> string) list"
  data :: jvalue

record http_response =
  status_code :: int
  resp_text :: string
  json :: "jvalue option"

text \<open>
  What the adapter touches outside itself: the process environment read by
  \<^verbatim>\<open>os.getenv\<close>, the provider (what a request is answered with, or the exception the
  call raises), and the log of the requests sent so far.
\<close>

record world =
  environ :: "string \<rightharpoonup> string"
  network :: "http_request \<Rightarrow> py_error + http_response"
  sent :: "http_request list"

section \<open>SerpAPITool.search\<close>

text \<open>\<^verbatim>\<open>d.get(k, default)\<close>: only a dict has the method.\<close>

fun dict_get :: "jvalue \<Rightarrow> string \<Rightarrow> jvalue \<Rightarrow> py_error + jvalue" where
  "dict_get (JObj kvs) k d = Inr (case map_of kvs k of None \<Rightarrow> d | Some v \<Rightarrow> v)"
| "dict_get JNull k d = Inl AttributeError"
| "dict_get (JBool b) k d = Inl AttributeError"
| "dict_get (JNum n) k d = Inl AttributeError"
| "dict_get (JStr s) k d = Inl AttributeError"
| "dict_get (JArr xs) k d = Inl AttributeError"

text \<open>
  \<^verbatim>\<open>for result in search_results[:10]\<close>: the items the comprehension visits. A list
  gives its first ten elements, a str its first ten characters (each a str of length
  one); no other value can be sliced: None, a bool and a number are not
  subscriptable, and a dict has no slice among its keys.
\<close>

fun slice10 :: "jvalue \<Rightarrow> py_error + jvalue list" where
  "slice10 (JArr xs) = Inr (take 10 xs)"
| "slice10 (JStr s) = Inr (map (\<lambda>c. JStr [c]) (take 10 s))"
| "slice10 JNull = Inl TypeError"
| "slice10 (JBool b) = Inl TypeError"
| "slice10 (JNum n) = Inl TypeError"
| "slice10 (JObj kvs) = Inl TypeError"

text \<open>
  A field declared \<^verbatim>\<open>str\<close> on the response class (a pydantic model) takes a str
  and refuses every other value that a JSON body can hold: null, a bool, a number,
  a list or a dict. Nothing is converted to a str.
\<close>

fun str_field :: "jvalue \<Rightarrow> string option" where
  "str_field (JStr s) = Some s"
| "str_field JNull = None"
| "str_field (JBool b) = None"
| "str_field (JNum n) = None"
| "str_field (JArr xs) = None"
| "str_field (JObj kvs) = None"

text \<open>\<^verbatim>\<open>SearchResult(title=t, link=l, snippet=s)\<close>\<close>

definition new_SearchResult :: "jvalue \<Rightarrow> jvalue \<Rightarrow> jvalue \<Rightarrow> py_error + SearchResult" where
  "new_SearchResult t l s =
     (case str_field t of
        None \<Rightarrow> Inl ValidationError
      | Some t' \<Rightarrow>
          (case str_field l of
             None \<Rightarrow> Inl ValidationError
           | Some l' \<Rightarrow>
               (case str_field s of
                  None \<Rightarrow> Inl ValidationError
                | Some s' \<Rightarrow> Inr \<lparr>title = t', link = l', snippet = s'\<rparr>)))"

text \<open>
  The body of the comprehension, for one \<^verbatim>\<open>result\<close>: the three \<^verbatim>\<open>.get\<close> calls are
  evaluated first, then the object is built.
\<close>

definition normalise_entry :: "jvalue \<Rightarrow> py_error + SearchResult" where
  "normalise_entry result =
     (case dict_get result ''title'' (JStr ''No Title'') of
        Inl e \<Rightarrow> Inl e
      | Inr t \<Rightarrow>
          (case dict_get result ''link'' (JStr ''#'') of
             Inl e \<Rightarrow> Inl e
           | Inr l \<Rightarrow>
               (case dict_get result ''snippet'' (JStr ''No Description'') of
                  Inl e \<Rightarrow> Inl e
                | Inr s \<Rightarrow> new_SearchResult t l s)))"

text \<open>The comprehension: entries in order, the first exception ends it.\<close>

fun normalise :: "jvalue list \<Rightarrow> py_error + SearchResult list" where
  "normalise [] = Inr []"
| "normalise (result # rest) =
     (case normalise_entry result of
        Inl e \<Rightarrow> Inl e
      | Inr r \<Rightarrow>
          (case normalise rest of
             Inl e \<Rightarrow> Inl e
           | Inr rs \<Rightarrow> Inr (r # rs)))"

text \<open>The branch \<^verbatim>\<open>if response.status_code == 200: ... else: raise ...\<close>\<close>

definition handle_response :: "http_response \<Rightarrow> py_error + SearchResult list" where
  "handle_response response =
     (if status_code response = 200 then
        (case json response of
           None \<Rightarrow> Inl JSONDecodeError
         | Some payload \<Rightarrow>
             (case dict_get payload ''organic'' (JArr []) of
                Inl e \<Rightarrow> Inl e
              | Inr search_results \<Rightarrow>
                  (case slice10 search_results of
                     Inl e \<Rightarrow> Inl e
                   | Inr entries \<Rightarrow> normalise entries)))
      else Inl (HTTPException 500 (''SerpAPI Request Failed: '' @ resp_text response)))"

text \<open>The request built from the key and the query.\<close>

definition serper_request :: "string \<Rightarrow> string \<Rightarrow> http_request" where
  "serper_request api_key query =
     \<lparr>url = ''https://google.serper.dev/search'',
      headers = [(''X-API-KEY'', api_key), (''Content-Type'', ''application/json'')],
      data = JObj [(''q'', JStr query)]\<rparr>"

text \<open>
  \<^verbatim>\<open>requests.post\<close>: the request is logged as sent, then answered by the provider.
\<close>

definition requests_post :: "http_request \<Rightarrow> world \<Rightarrow> (py_error + http_response) \<times> world" where
  "requests_post req w = (network w req, w\<lparr>sent := sent w @ [req]\<rparr>)"

text \<open>
  \<^verbatim>\<open>SerpAPITool.search(query)\<close>. \<^verbatim>\<open>not api_key\<close> holds for None and for the empty
  string. The result is the list returned or the exception raised, with the world
  after the call.
\<close>

definition search :: "string \<Rightarrow> world \<Rightarrow> (py_error + SearchResult list) \<times> world" where
  "search query w =
     (case environ w ''SERPAPI_API_KEY'' of
        None \<Rightarrow> (Inl (HTTPException 500 ''SerpAPI API Key not found!''), w)
      | Some api_key \<Rightarrow>
          if api_key = [] then (Inl (HTTPException 500 ''SerpAPI API Key not found!''), w)
          else
            (case requests_post (serper_request api_key query) w of
               (Inl e, w') \<Rightarrow> (Inl e, w')
             | (Inr response, w') \<Rightarrow> (handle_response response, w')))"

section \<open>perform_search\<close>

text \<open>
  A tool handed to the orchestrator: a class with the one method \<^verbatim>\<open>search\<close>.
  \<^verbatim>\<open>SerpAPITool\<close> is the class whose method is the adapter above.
\<close>

record tool =
  tool_search :: "string \<Rightarrow> world \<Rightarrow> (py_error + SearchResult list) \<times> world"

definition SerpAPITool :: tool where
  "SerpAPITool = \<lparr>tool_search = search\<rparr>"

datatype response_format = SearchResponse_format

record AgentConfiguration =
  job_title :: string
  company_url :: string
  company_objective :: string
  reflection :: bool

record Task =
  description :: string
  tools :: "tool list"
  response_format :: response_format

definition search_agent :: AgentConfiguration where
  "search_agent =
     \<lparr>job_title = ''Search Analyst'',
      company_url = ''https://upsonic.ai'',
      company_objective = ''Fetch and analyze the latest search results'',
      reflection = True\<rparr>"

text \<open>
  What \<^verbatim>\<open>search_task.response\<close> holds after \<^verbatim>\<open>client.agent\<close> has run: None, some
  other value that Python counts as false (an empty container or string), a value
  that counts as true but has no attribute \<^verbatim>\<open>results\<close> (a non-empty str, say), or an
  object of the declared response class, which counts as true.
\<close>

datatype task_response = NoneResponse | EmptyResponse | OtherResponse | Response SearchResponse

fun truthy :: "task_response \<Rightarrow> bool" where
  "truthy NoneResponse = False"
| "truthy EmptyResponse = False"
| "truthy OtherResponse = True"
| "truthy (Response r) = True"

text \<open>The task built from the request, with the keyword inside an f-string.\<close>

definition search_task :: "SearchInput \<Rightarrow> Task" where
  "search_task input_data =
     \<lparr>description =
        ''Perform a web search for '' @ keyword input_data @
        '' and return the top results with titles, links, and snippets.'',
      tools = [SerpAPITool],
      response_format = SearchResponse_format\<rparr>"

text \<open>
  \<^verbatim>\<open>perform_search(input_data)\<close>. The orchestrator is a library outside the
  repository: \<open>agent\<close> is what \<^verbatim>\<open>client.agent(search_agent, search_task)\<close> leaves in
  \<^verbatim>\<open>search_task.response\<close>, or the exception it raises. The handler catches nothing,
  and \<^verbatim>\<open>search_data.results\<close> raises on a value without the attribute.
\<close>

definition perform_search ::
  "(AgentConfiguration \<Rightarrow> Task \<Rightarrow> py_error + task_response) \<Rightarrow> SearchInput \<Rightarrow> py_error + reply" where
  "perform_search agent input_data =
     (case agent search_agent (search_task input_data) of
        Inl e \<Rightarrow> Inl e
      | Inr search_data \<Rightarrow>
          if \<not> truthy search_data then
            Inl (HTTPException 500 ''Failed to fetch search results.'')
          else
            (case search_data of
               Response r \<Rightarrow>
                 Inr \<lparr>reply_keyword = keyword input_data, reply_results = results r\<rparr>
             | _ \<Rightarrow> Inl AttributeError))"

section \<open>Records that normalise, and a provider with one answer\<close>

text \<open>
  A key of a record is acceptable when it is absent or holds a str; an entry is
  well formed when it is a dict whose three keys read by the adapter are acceptable.
\<close>

definition field_ok :: "(string \<times> jvalue) list \<Rightarrow> string \<Rightarrow> bool" where
  "field_ok kvs k = (case map_of kvs k of None \<Rightarrow> True | Some v \<Rightarrow> str_field v \<noteq> None)"

fun well_formed_entry :: "jvalue \<Rightarrow> bool" where
  "well_formed_entry (JObj kvs) =
     (field_ok kvs ''title'' \<and> field_ok kvs ''link'' \<and> field_ok kvs ''snippet'')"
| "well_formed_entry JNull = False"
| "well_formed_entry (JBool b) = False"
| "well_formed_entry (JNum n) = False"
| "well_formed_entry (JStr s) = False"
| "well_formed_entry (JArr xs) = False"

text \<open>
  A world for concrete runs: the environment holds at most the provider's key, the
  provider gives the same answer to every request, and nothing has been sent yet.
\<close>

definition provider_world :: "string option \<Rightarrow> (py_error + http_response) \<Rightarrow> world" where
  "provider_world key answer =
     \<lparr>environ = (\<lambda>name. if name = ''SERPAPI_API_KEY'' then key else None),
      network = (\<lambda>req. answer),
      sent = []\<rparr>"

text \<open>A provider answer with status 200 whose body is the given JSON object.\<close>

definition ok_answer :: "(string \<times> jvalue) list \<Rightarrow> py_error + http_response" where
  "ok_answer payload = Inr \<lparr>status_code = 200, resp_text = [], json = Some (JObj payload)\<rparr>"

text \<open>A provider answer with the given status and body text, the body no JSON.\<close>

definition plain_answer :: "int \<Rightarrow> string \<Rightarrow> py_error + http_response" where
  "plain_answer code body = Inr \<lparr>status_code = code, resp_text = body, json = None\<rparr>"

text \<open>An entry with all three fields, each the given text with a one-letter tag.\<close>

definition full_entry :: "string \<Rightarrow> jvalue" where
  "full_entry s =
     JObj [(''title'', JStr (''T'' @ s)), (''link'', JStr (''L'' @ s)), (''snippet'', JStr (''S'' @ s))]"

definition full_result :: "string \<Rightarrow> SearchResult" where
  "full_result s = \<lparr>title = ''T'' @ s, link = ''L'' @ s, snippet = ''S'' @ s\<rparr>"


text \<open>Twelve entries, \<open>a\<close> to \<open>l\<close>, in that order.\<close>

definition twelve :: "jvalue list" where
  "twelve =
     map full_entry
       [''a'', ''b'', ''c'', ''d'', ''e'', ''f'', ''g'', ''h'', ''i'', ''j'', ''k'', ''l'']"

section \<open>Lemmas shared by the properties\<close>

lemma str_field_Some: "str_field v = Some s \<longleftrightarrow> v = JStr s"
  by (cases v) auto

lemma normalise_entry_well_formed:
  assumes "well_formed_entry e"
  shows "\<exists>r. normalise_entry e = Inr r"
proof (cases e)
  case (JObj kvs)
  with assms show ?thesis
    by (auto simp: normalise_entry_def new_SearchResult_def field_ok_def
        split: option.splits)
qed (use assms in auto)

lemma normalise_well_formed:
  "list_all well_formed_entry es \<Longrightarrow>
   \<exists>rs. normalise es = Inr rs \<and> list_all2 (\<lambda>e r. normalise_entry e = Inr r) es rs"
proof (induction es)
  case Nil
  then show ?case by simp
next
  case (Cons e es)
  from Cons.prems have e: "well_formed_entry e" and es: "list_all well_formed_entry es"
    by simp_all
  from normalise_entry_well_formed[OF e] obtain r where r: "normalise_entry e = Inr r" ..
  from Cons.IH[OF es] obtain rs
    where rs: "normalise es = Inr rs" "list_all2 (\<lambda>e r. normalise_entry e = Inr r) es rs"
    by blast
  show ?case using r rs by simp
qed

lemma search_with_key:
  assumes "environ w ''SERPAPI_API_KEY'' = Some api_key" and "api_key \<noteq> []"
  shows "search query w =
     (case network w (serper_request api_key query) of
        Inl e \<Rightarrow> Inl e
      | Inr response \<Rightarrow> handle_response response,
      w\<lparr>sent := sent w @ [serper_request api_key query]\<rparr>)"
  using assms by (simp add: search_def requests_post_def split: sum.splits)

lemma handle_response_organic:
  assumes "status_code response = 200" and "json response = Some (JObj payload)"
    and "map_of payload ''organic'' = Some (JArr entries)"
  shows "handle_response response = normalise (take 10 entries)"
  using assms by (simp add: handle_response_def)

lemma normalise_entry_full: "normalise_entry (full_entry s) = Inr (full_result s)"
  by (simp add: normalise_entry_def new_SearchResult_def full_entry_def full_result_def)

lemma well_formed_full: "well_formed_entry (full_entry s)"
  by (simp add: full_entry_def field_ok_def)

lemma provider_world_key: "environ (provider_world key answer) ''SERPAPI_API_KEY'' = key"
  by (simp add: provider_world_def)

lemma provider_world_network: "network (provider_world key answer) req = answer"
  by (simp add: provider_world_def)

lemma provider_world_sent: "sent (provider_world key answer) = []"
  by (simp add: provider_world_def)

lemma search_twelve:
  "fst (search ''rust'' (provider_world (Some ''k'') (ok_answer [(''organic'', JArr twelve)])))
     = Inr (map full_result [''a'', ''b'', ''c'', ''d'', ''e'', ''f'', ''g'', ''h'', ''i'', ''j''])"
  by (simp add: search_with_key[where api_key = "''k''"] provider_world_key provider_world_network
      ok_answer_def handle_response_def twelve_def normalise_entry_full)

section \<open>The adapter: truncation, defaults and failures\<close>

text \<open>
  C1, as amended. When the key is configured, the provider answers 200 and the body
  is an object whose \<^verbatim>\<open>organic\<close> list has n entries, of which the first ten are
  well formed, \<^verbatim>\<open>search\<close> returns exactly min(n, 10) results: position by position
  the normalisation of the first ten entries, in the provider's order. Entries past
  the tenth are not looked at.
\<close>

theorem search_first_ten:
  assumes "environ w ''SERPAPI_API_KEY'' = Some api_key" and "api_key \<noteq> []"
    and "network w (serper_request api_key query) = Inr response"
    and "status_code response = 200"
    and "json response = Some (JObj payload)"
    and "map_of payload ''organic'' = Some (JArr entries)"
    and "list_all well_formed_entry (take 10 entries)"
  shows "\<exists>rs. fst (search query w) = Inr rs
    \<and> length rs = min (length entries) 10
    \<and> list_all2 (\<lambda>e r. normalise_entry e = Inr r) (take 10 entries) rs"
proof -
  have "fst (search query w) = normalise (take 10 entries)"
    using assms(1-6) by (simp add: search_with_key handle_response_organic)
  moreover from normalise_well_formed[OF assms(7)] obtain rs
    where rs: "normalise (take 10 entries) = Inr rs"
      "list_all2 (\<lambda>e r. normalise_entry e = Inr r) (take 10 entries) rs"
    by blast
  moreover from rs(2) have "length rs = min (length entries) 10"
    by (simp add: list_all2_lengthD[symmetric])
  ultimately show ?thesis by simp
qed

text \<open>
  C1, at a body with twelve entries: the first ten come back, in order.
\<close>

theorem search_first_ten_witness:
  "list_all well_formed_entry (take 10 twelve)
   \<and> (\<exists>rs. fst (search ''rust'' (provider_world (Some ''k'') (ok_answer [(''organic'', JArr twelve)]))) = Inr rs
      \<and> length rs = 10
      \<and> list_all2 (\<lambda>e r. normalise_entry e = Inr r) (take 10 twelve) rs)
   \<and> fst (search ''rust'' (provider_world (Some ''k'') (ok_answer [(''organic'', JArr twelve)])))
     = Inr (map full_result [''a'', ''b'', ''c'', ''d'', ''e'', ''f'', ''g'', ''h'', ''i'', ''j''])"
proof -
  let ?payload = "[(''organic'', JArr twelve)]"
  let ?r = "\<lparr>status_code = 200, resp_text = [], json = Some (JObj ?payload)\<rparr>"
  let ?w = "provider_world (Some ''k'') (ok_answer ?payload)"
  have key: "environ ?w ''SERPAPI_API_KEY'' = Some ''k''"
    by (simp add: provider_world_key)
  have ne: "''k'' \<noteq> []" by simp
  have net: "network ?w (serper_request ''k'' ''rust'') = Inr ?r"
    by (simp add: provider_world_network ok_answer_def)
  have st: "status_code ?r = 200" by simp
  have js: "json ?r = Some (JObj ?payload)" by simp
  have org: "map_of ?payload ''organic'' = Some (JArr twelve)" by simp
  have wf: "list_all well_formed_entry (take 10 twelve)"
    by (simp add: twelve_def well_formed_full)
  have len: "min (length twelve) 10 = 10" by (simp add: twelve_def)
  from search_first_ten[OF key ne net st js org wf] wf search_twelve len
  show ?thesis by simp
qed

text \<open>
  C1 as first stated covers every body with an \<^verbatim>\<open>organic\<close> list. It fails where an
  entry holds null under \<^verbatim>\<open>title\<close>: one entry, and the call raises instead of
  returning one result.
\<close>

theorem null_title_fails_search:
  "fst (search ''rust'' (provider_world (Some ''k'')
      (ok_answer [(''organic'', JArr [JObj [(''title'', JNull), (''link'', JStr ''l'')]])])))
     = Inl ValidationError"
  by (simp add: search_with_key[where api_key = "''k''"] provider_world_key provider_world_network
      ok_answer_def handle_response_def normalise_entry_def new_SearchResult_def)

text \<open>
  C2, as amended. For a record whose \<^verbatim>\<open>title\<close>, \<^verbatim>\<open>link\<close> and \<^verbatim>\<open>snippet\<close>, where
  present, are strings, normalisation succeeds; each output field is the placeholder
  when its key is absent and the record's own string when the key is present, the
  empty string included.
\<close>

theorem normalise_entry_fields:
  assumes "well_formed_entry (JObj kvs)"
  shows "\<exists>r. normalise_entry (JObj kvs) = Inr r
    \<and> (map_of kvs ''title'' = None \<longrightarrow> title r = ''No Title'')
    \<and> (\<forall>s. map_of kvs ''title'' = Some (JStr s) \<longrightarrow> title r = s)
    \<and> (map_of kvs ''link'' = None \<longrightarrow> link r = ''#'')
    \<and> (\<forall>s. map_of kvs ''link'' = Some (JStr s) \<longrightarrow> link r = s)
    \<and> (map_of kvs ''snippet'' = None \<longrightarrow> snippet r = ''No Description'')
    \<and> (\<forall>s. map_of kvs ''snippet'' = Some (JStr s) \<longrightarrow> snippet r = s)"
  using assms
  by (auto simp: normalise_entry_def new_SearchResult_def field_ok_def str_field_Some
      split: option.splits)

text \<open>
  C2, at a record with no title, an empty link and a snippet.
\<close>

theorem normalise_entry_fields_witness:
  "well_formed_entry (JObj [(''link'', JStr []), (''snippet'', JStr ''fast and safe'')])
   \<and> (\<exists>r. normalise_entry (JObj [(''link'', JStr []), (''snippet'', JStr ''fast and safe'')]) = Inr r
        \<and> title r = ''No Title'' \<and> link r = [] \<and> snippet r = ''fast and safe'')"
proof -
  let ?kvs = "[(''link'', JStr []), (''snippet'', JStr ''fast and safe'')]"
  have wf: "well_formed_entry (JObj ?kvs)" by (simp add: field_ok_def)
  from normalise_entry_fields[OF wf] have
    "\<exists>r. normalise_entry (JObj ?kvs) = Inr r
        \<and> title r = ''No Title'' \<and> link r = [] \<and> snippet r = ''fast and safe''"
    by simp
  with wf show ?thesis ..
qed

text \<open>
  C2 as first stated puts the placeholder in place of an empty value too. A title
  that is present and empty stays empty.
\<close>

theorem empty_title_is_kept:
  "normalise_entry (JObj [(''title'', JStr []), (''link'', JStr ''https://a.example''), (''snippet'', JStr ''s'')])
     = Inr \<lparr>title = [], link = ''https://a.example'', snippet = ''s''\<rparr>"
  by (simp add: normalise_entry_def new_SearchResult_def)

text \<open>
  C4, as amended. When the key is configured and the provider answers with a status
  other than 200, \<^verbatim>\<open>search\<close> raises an HTTPException whose status is the fixed 500
  and whose detail is \<^verbatim>\<open>SerpAPI Request Failed: \<close> followed by the body text; no
  result list is returned.
\<close>

theorem search_non_200:
  assumes "environ w ''SERPAPI_API_KEY'' = Some api_key" and "api_key \<noteq> []"
    and "network w (serper_request api_key query) = Inr response"
    and "status_code response \<noteq> 200"
  shows "fst (search query w) =
    Inl (HTTPException 500 (''SerpAPI Request Failed: '' @ resp_text response))"
  using assms by (simp add: search_with_key handle_response_def)

text \<open>
  C4, at a provider that answers 404.
\<close>

theorem search_non_200_witness:
  "status_code \<lparr>status_code = 404, resp_text = ''Not Found'', json = None\<rparr> \<noteq> 200
   \<and> fst (search ''rust'' (provider_world (Some ''k'') (plain_answer 404 ''Not Found'')))
     = Inl (HTTPException 500 ''SerpAPI Request Failed: Not Found'')"
proof -
  let ?r = "\<lparr>status_code = 404, resp_text = ''Not Found'', json = None\<rparr>"
  let ?w = "provider_world (Some ''k'') (plain_answer 404 ''Not Found'')"
  have key: "environ ?w ''SERPAPI_API_KEY'' = Some ''k''"
    by (simp add: provider_world_key)
  have ne: "''k'' \<noteq> []" by simp
  have net: "network ?w (serper_request ''k'' ''rust'') = Inr ?r"
    by (simp add: provider_world_network plain_answer_def)
  have st: "status_code ?r \<noteq> 200" by simp
  from search_non_200[OF key ne net st] st show ?thesis by simp
qed

text \<open>
  C4 as first stated has the error carry the provider's status. Answers 404 and 503
  with the same body raise the same error, with status 500.
\<close>

theorem search_hides_provider_status:
  "fst (search ''rust'' (provider_world (Some ''k'') (plain_answer 404 ''down'')))
     = Inl (HTTPException 500 ''SerpAPI Request Failed: down'')
   \<and> fst (search ''rust'' (provider_world (Some ''k'') (plain_answer 503 ''down'')))
     = Inl (HTTPException 500 ''SerpAPI Request Failed: down'')"
  by (simp add: search_def requests_post_def provider_world_def plain_answer_def
      handle_response_def)

text \<open>
  C5. When the provider's key is absent from the environment (unset, or set to the
  empty string), \<^verbatim>\<open>search\<close> raises the HTTPException for the missing key and
  leaves the world as it was: no request has been sent.
\<close>

theorem search_without_key:
  assumes "environ w ''SERPAPI_API_KEY'' = None \<or> environ w ''SERPAPI_API_KEY'' = Some []"
  shows "search query w = (Inl (HTTPException 500 ''SerpAPI API Key not found!''), w)
    \<and> sent (snd (search query w)) = sent w"
  using assms by (auto simp: search_def)

text \<open>
  C5, at a world without the key whose provider would have answered with a result.
\<close>

theorem search_without_key_witness:
  "environ (provider_world None (ok_answer [(''organic'', JArr [full_entry ''a''])])) ''SERPAPI_API_KEY'' = None
   \<and> fst (search ''rust'' (provider_world None (ok_answer [(''organic'', JArr [full_entry ''a''])])))
       = Inl (HTTPException 500 ''SerpAPI API Key not found!'')
   \<and> sent (snd (search ''rust'' (provider_world None (ok_answer [(''organic'', JArr [full_entry ''a''])])))) = []"
proof -
  let ?w = "provider_world None (ok_answer [(''organic'', JArr [full_entry ''a''])])"
  have h: "environ ?w ''SERPAPI_API_KEY'' = None" by (simp add: provider_world_key)
  then have "environ ?w ''SERPAPI_API_KEY'' = None \<or> environ ?w ''SERPAPI_API_KEY'' = Some []" ..
  from search_without_key[OF this, of "''rust''"] h show ?thesis
    by (simp add: provider_world_sent)
qed

text \<open>
  C6. When the key is configured and the provider answers 200 with an object in
  which \<^verbatim>\<open>organic\<close> is missing or is the empty list, \<^verbatim>\<open>search\<close> returns the empty
  list and raises nothing.
\<close>

theorem search_no_organic:
  assumes "environ w ''SERPAPI_API_KEY'' = Some api_key" and "api_key \<noteq> []"
    and "network w (serper_request api_key query) = Inr response"
    and "status_code response = 200"
    and "json response = Some (JObj payload)"
    and "map_of payload ''organic'' = None \<or> map_of payload ''organic'' = Some (JArr [])"
  shows "fst (search query w) = Inr []"
  using assms by (auto simp: search_with_key handle_response_def)

text \<open>
  C6, at a body with an empty \<^verbatim>\<open>organic\<close> list and at a body without the key.
\<close>

theorem search_no_organic_witness:
  "fst (search ''rust'' (provider_world (Some ''k'') (ok_answer [(''organic'', JArr [])]))) = Inr []
   \<and> fst (search ''rust'' (provider_world (Some ''k'') (ok_answer [(''credits'', JNum 1)]))) = Inr []"
proof -
  let ?r = "\<lambda>payload. \<lparr>status_code = 200, resp_text = [], json = Some (JObj payload)\<rparr>"
  let ?w = "\<lambda>payload. provider_world (Some ''k'') (ok_answer payload)"
  have key: "environ (?w payload) ''SERPAPI_API_KEY'' = Some ''k''" for payload
    by (simp add: provider_world_key)
  have ne: "''k'' \<noteq> []" by simp
  have net: "network (?w payload) (serper_request ''k'' ''rust'') = Inr (?r payload)" for payload
    by (simp add: provider_world_network ok_answer_def)
  have st: "status_code (?r payload) = 200" for payload by simp
  have js: "json (?r payload) = Some (JObj payload)" for payload by simp
  have empty: "map_of [(''organic'', JArr [])] ''organic'' = None
      \<or> map_of [(''organic'', JArr [])] ''organic'' = Some (JArr [])" by simp
  have missing: "map_of [(''credits'', JNum 1)] ''organic'' = None
      \<or> map_of [(''credits'', JNum 1)] ''organic'' = Some (JArr [])" by simp
  from search_no_organic[OF key ne net st js empty] search_no_organic[OF key ne net st js missing]
  show ?thesis by simp
qed

text \<open>
  C9, as amended. Normalisation succeeds on every sequence of well-formed entries,
  whichever of the three keys are present, and gives one result per entry.
\<close>

theorem normalise_total_on_string_fields:
  assumes "list_all well_formed_entry entries"
  shows "\<exists>rs. normalise entries = Inr rs \<and> length rs = length entries"
proof -
  from normalise_well_formed[OF assms] obtain rs where
    "normalise entries = Inr rs" "list_all2 (\<lambda>e r. normalise_entry e = Inr r) entries rs"
    by blast
  then show ?thesis by (auto dest: list_all2_lengthD)
qed

text \<open>
  C9, at four records: no key, a title only, a link and a snippet, all three.
\<close>

theorem normalise_total_on_string_fields_witness:
  "list_all well_formed_entry
     [JObj [], JObj [(''title'', JStr ''t'')], JObj [(''link'', JStr ''l''), (''snippet'', JStr ''s'')], full_entry ''a'']
   \<and> (\<exists>rs. normalise
     [JObj [], JObj [(''title'', JStr ''t'')], JObj [(''link'', JStr ''l''), (''snippet'', JStr ''s'')], full_entry ''a'']
       = Inr rs \<and> length rs = 4)"
proof -
  let ?es = "[JObj [], JObj [(''title'', JStr ''t'')], JObj [(''link'', JStr ''l''), (''snippet'', JStr ''s'')], full_entry ''a'']"
  have wf: "list_all well_formed_entry ?es"
    by (simp add: field_ok_def well_formed_full)
  have len: "length ?es = 4" by simp
  from normalise_total_on_string_fields[OF wf, unfolded len] wf show ?thesis by blast
qed

text \<open>
  C9 as first stated lets a record map its keys to any value. A record whose
  snippet is a list is refused.
\<close>

theorem list_snippet_is_refused:
  "normalise [JObj [(''title'', JStr ''t''), (''link'', JStr ''l''), (''snippet'', JArr [JStr ''s''])]]
     = Inl ValidationError"
  by (simp add: normalise_entry_def new_SearchResult_def)

section \<open>The request handler\<close>

text \<open>
  C3. Whenever \<^verbatim>\<open>perform_search\<close> returns, the keyword it returns is the keyword of
  the request, whatever the orchestrator did.
\<close>

theorem perform_search_echoes_keyword:
  assumes "perform_search agent input_data = Inr out"
  shows "reply_keyword out = keyword input_data"
  using assms
  by (auto simp: perform_search_def split: sum.splits if_splits task_response.splits)

text \<open>
  C3, at the keyword \<^verbatim>\<open>rust vs go\<close>.
\<close>

theorem perform_search_echoes_keyword_witness:
  "perform_search
     (\<lambda>cfg task. Inr (Response (SearchResponse [\<lparr>title = ''Go'', link = ''https://go.dev'', snippet = ''golang''\<rparr>])))
     \<lparr>keyword = ''rust vs go''\<rparr>
   = Inr \<lparr>reply_keyword = ''rust vs go'',
          reply_results = [\<lparr>title = ''Go'', link = ''https://go.dev'', snippet = ''golang''\<rparr>]\<rparr>
   \<and> reply_keyword \<lparr>reply_keyword = ''rust vs go'',
          reply_results = [\<lparr>title = ''Go'', link = ''https://go.dev'', snippet = ''golang''\<rparr>]\<rparr>
     = keyword \<lparr>keyword = ''rust vs go''\<rparr>"
proof -
  let ?agent = "\<lambda>(cfg::AgentConfiguration) (task::Task). (Inr (Response (SearchResponse [\<lparr>title = ''Go'', link = ''https://go.dev'', snippet = ''golang''\<rparr>])) :: py_error + task_response)"
  let ?out = "\<lparr>reply_keyword = ''rust vs go'',
          reply_results = [\<lparr>title = ''Go'', link = ''https://go.dev'', snippet = ''golang''\<rparr>]\<rparr>"
  have run: "perform_search ?agent \<lparr>keyword = ''rust vs go''\<rparr> = Inr ?out"
    by (simp add: perform_search_def)
  from run perform_search_echoes_keyword[OF run] show ?thesis ..
qed

text \<open>
  C7. When the orchestrator leaves no response (None, or another value that counts
  as false), \<^verbatim>\<open>perform_search\<close> raises an HTTPException with status 500 and a
  fixed message, and returns nothing.
\<close>

theorem perform_search_no_response:
  assumes "agent search_agent (search_task input_data) = Inr search_data"
    and "\<not> truthy search_data"
  shows "perform_search agent input_data = Inl (HTTPException 500 ''Failed to fetch search results.'')"
  using assms by (simp add: perform_search_def)

text \<open>
  C7, at an orchestrator that leaves None and at one that leaves an empty value.
\<close>

theorem perform_search_no_response_witness:
  "\<not> truthy NoneResponse \<and> \<not> truthy EmptyResponse
   \<and> perform_search (\<lambda>cfg task. Inr NoneResponse) \<lparr>keyword = ''rust''\<rparr>
       = Inl (HTTPException 500 ''Failed to fetch search results.'')
   \<and> perform_search (\<lambda>cfg task. Inr EmptyResponse) \<lparr>keyword = ''rust''\<rparr>
       = Inl (HTTPException 500 ''Failed to fetch search results.'')"
proof -
  have n: "\<not> truthy NoneResponse" and e: "\<not> truthy EmptyResponse" by simp_all
  have a: "(\<lambda>(cfg::AgentConfiguration) (task::Task). (Inr NoneResponse :: py_error + task_response))
      search_agent (search_task \<lparr>keyword = ''rust''\<rparr>) = Inr NoneResponse" by simp
  have b: "(\<lambda>(cfg::AgentConfiguration) (task::Task). (Inr EmptyResponse :: py_error + task_response))
      search_agent (search_task \<lparr>keyword = ''rust''\<rparr>) = Inr EmptyResponse" by simp
  from perform_search_no_response[OF a n] perform_search_no_response[OF b e] n e
  show ?thesis by simp
qed

text \<open>
  C8, as amended. The handler does not validate the keyword: a request whose keyword
  is empty is not rejected but forwarded like any other. For every keyword, the
  empty one included, the orchestrator is handed the task whose description embeds
  the keyword, and when it leaves a response object the request succeeds with the
  request's keyword and that object's results.
\<close>

theorem perform_search_any_keyword:
  assumes "agent search_agent
      \<lparr>description =
         ''Perform a web search for '' @ keyword input_data @
         '' and return the top results with titles, links, and snippets.'',
       tools = [SerpAPITool],
       response_format = SearchResponse_format\<rparr> = Inr (Response r)"
  shows "perform_search agent input_data =
    Inr \<lparr>reply_keyword = keyword input_data, reply_results = results r\<rparr>"
  using assms by (simp add: perform_search_def search_task_def)

text \<open>
  C8, at the empty keyword.
\<close>

theorem perform_search_any_keyword_witness:
  "perform_search (\<lambda>cfg task. Inr (Response (SearchResponse []))) \<lparr>keyword = []\<rparr>
     = Inr \<lparr>reply_keyword = [], reply_results = []\<rparr>"
proof -
  let ?agent = "\<lambda>(cfg::AgentConfiguration) (task::Task).
    (Inr (Response (SearchResponse [])) :: py_error + task_response)"
  have run: "?agent search_agent
      \<lparr>description =
         ''Perform a web search for '' @ keyword \<lparr>keyword = []\<rparr> @
         '' and return the top results with titles, links, and snippets.'',
       tools = [SerpAPITool],
       response_format = SearchResponse_format\<rparr> = Inr (Response (SearchResponse []))"
    by simp
  from perform_search_any_keyword[OF run] show ?thesis by simp
qed

text \<open>
  C8 as first stated has the handler reject an empty keyword. The empty keyword
  reaches the orchestrator inside the task description (shown here by an orchestrator
  that hands the description back as a title), and the request succeeds.
\<close>

theorem empty_keyword_is_forwarded:
  "perform_search
     (\<lambda>cfg task. Inr (Response (SearchResponse [\<lparr>title = description task, link = ''#'', snippet = []\<rparr>])))
     \<lparr>keyword = []\<rparr>
   = Inr \<lparr>reply_keyword = [],
          reply_results =
            [\<lparr>title = ''Perform a web search for  and return the top results with titles, links, and snippets.'',
              link = ''#'', snippet = []\<rparr>]\<rparr>"
  by (simp add: perform_search_def search_task_def)



end
